theory Spec2Isabelle
  imports Main "HOL-Library.Word"
begin

unbundle bit_operations_syntax

section \<open>Bytes and Go strings\<close>

text \<open>
  The model follows \<^verbatim>\<open>tsig.go\<close> of package \<^verbatim>\<open>dns\<close>. A Go \<^verbatim>\<open>[]byte\<close> is a list
  of 8-bit words, a Go \<^verbatim>\<open>string\<close> (an immutable byte sequence) is a \<^typ>\<open>string\<close>: a
  \<^typ>\<open>char\<close> is exactly one byte. The two conversions \<^verbatim>\<open>[]byte(s)\<close> and
  \<^verbatim>\<open>string(b)\<close> copy the bytes.
\<close>

type_synonym byte = "8 word"

definition bytes_of_string :: "string \<Rightarrow> byte list" where
  "bytes_of_string s = map (\<lambda>c. of_nat (of_char c)) s"

definition string_of_bytes :: "byte list \<Rightarrow> string" where
  "string_of_bytes b = map (\<lambda>w. char_of (unat w)) b"

section \<open>The digest engine: HMAC over MD5\<close>

text \<open>
  \<^verbatim>\<open>hmac.NewMD5(key)\<close>, \<^verbatim>\<open>io.WriteString(h, data)\<close> and \<^verbatim>\<open>h.Sum()\<close> of Go's
  \<^verbatim>\<open>crypto/hmac\<close> compute the keyed hash of RFC 2104 over the MD5 of RFC 1321. Both
  are written out, so that the model runs on concrete inputs.
\<close>

definition md5_K :: "32 word list" where
  "md5_K = [
    0xd76aa478, 0xe8c7b756, 0x242070db, 0xc1bdceee, 0xf57c0faf, 0x4787c62a, 0xa8304613, 0xfd469501,
    0x698098d8, 0x8b44f7af, 0xffff5bb1, 0x895cd7be, 0x6b901122, 0xfd987193, 0xa679438e, 0x49b40821,
    0xf61e2562, 0xc040b340, 0x265e5a51, 0xe9b6c7aa, 0xd62f105d, 0x02441453, 0xd8a1e681, 0xe7d3fbc8,
    0x21e1cde6, 0xc33707d6, 0xf4d50d87, 0x455a14ed, 0xa9e3e905, 0xfcefa3f8, 0x676f02d9, 0x8d2a4c8a,
    0xfffa3942, 0x8771f681, 0x6d9d6122, 0xfde5380c, 0xa4beea44, 0x4bdecfa9, 0xf6bb4b60, 0xbebfbc70,
    0x289b7ec6, 0xeaa127fa, 0xd4ef3085, 0x04881d05, 0xd9d4d039, 0xe6db99e5, 0x1fa27cf8, 0xc4ac5665,
    0xf4292244, 0x432aff97, 0xab9423a7, 0xfc93a039, 0x655b59c3, 0x8f0ccc92, 0xffeff47d, 0x85845dd1,
    0x6fa87e4f, 0xfe2ce6e0, 0xa3014314, 0x4e0811a1, 0xf7537e82, 0xbd3af235, 0x2ad7d2bb, 0xeb86d391]"

definition md5_S :: "nat list" where
  "md5_S = [7, 12, 17, 22, 7, 12, 17, 22, 7, 12, 17, 22, 7, 12, 17, 22,
            5, 9, 14, 20, 5, 9, 14, 20, 5, 9, 14, 20, 5, 9, 14, 20,
            4, 11, 16, 23, 4, 11, 16, 23, 4, 11, 16, 23, 4, 11, 16, 23,
            6, 10, 15, 21, 6, 10, 15, 21, 6, 10, 15, 21, 6, 10, 15, 21]"

definition rotl32 :: "nat \<Rightarrow> 32 word \<Rightarrow> 32 word" where
  "rotl32 n w = push_bit n w OR drop_bit (32 - n) w"

definition le32 :: "byte list \<Rightarrow> 32 word" where
  "le32 bs = foldr (\<lambda>b acc. push_bit 8 acc OR ucast b) bs 0"

definition le_bytes :: "nat \<Rightarrow> 'a::len word \<Rightarrow> byte list" where
  "le_bytes n w = map (\<lambda>i. ucast (drop_bit (8 * i) w)) [0..<n]"

definition be_bytes :: "nat \<Rightarrow> 'a::len word \<Rightarrow> byte list" where
  "be_bytes n w = rev (le_bytes n w)"

fun chunks :: "nat \<Rightarrow> nat \<Rightarrow> 'a list \<Rightarrow> 'a list list" where
  "chunks 0 n xs = []"
| "chunks (Suc k) n xs = take n xs # chunks k n (drop n xs)"

definition md5_F :: "nat \<Rightarrow> 32 word \<Rightarrow> 32 word \<Rightarrow> 32 word \<Rightarrow> 32 word" where
  "md5_F i b c d =
     (if i < 16 then (b AND c) OR (NOT b AND d)
      else if i < 32 then (d AND b) OR (NOT d AND c)
      else if i < 48 then b XOR c XOR d
      else c XOR (b OR NOT d))"

definition md5_g :: "nat \<Rightarrow> nat" where
  "md5_g i =
     (if i < 16 then i
      else if i < 32 then (5 * i + 1) mod 16
      else if i < 48 then (3 * i + 5) mod 16
      else (7 * i) mod 16)"

type_synonym md5_state = "32 word \<times> 32 word \<times> 32 word \<times> 32 word"

fun md5_step :: "32 word list \<Rightarrow> md5_state \<Rightarrow> nat \<Rightarrow> md5_state" where
  "md5_step M (a, b, c, d) i =
     (d, b + rotl32 (md5_S ! i) (md5_F i b c d + a + md5_K ! i + M ! md5_g i), b, c)"

fun md5_add :: "md5_state \<Rightarrow> md5_state \<Rightarrow> md5_state" where
  "md5_add (a0, b0, c0, d0) (a, b, c, d) = (a0 + a, b0 + b, c0 + c, d0 + d)"

definition md5_block :: "md5_state \<Rightarrow> byte list \<Rightarrow> md5_state" where
  "md5_block st blk = md5_add st (foldl (md5_step (map le32 (chunks 16 4 blk))) st [0..<64])"

definition md5_pad :: "byte list \<Rightarrow> byte list" where
  "md5_pad m = m @ [0x80] @ replicate ((119 - length m mod 64) mod 64) 0
                 @ le_bytes 8 (word_of_nat (8 * length m) :: 64 word)"

fun md5_out :: "md5_state \<Rightarrow> byte list" where
  "md5_out (a, b, c, d) = le_bytes 4 a @ le_bytes 4 b @ le_bytes 4 c @ le_bytes 4 d"

definition md5 :: "byte list \<Rightarrow> byte list" where
  "md5 m = (let p = md5_pad m in
     md5_out (foldl md5_block (0x67452301, 0xefcdab89, 0x98badcfe, 0x10325476)
                (chunks (length p div 64) 64 p)))"

definition hmac_md5 :: "byte list \<Rightarrow> byte list \<Rightarrow> byte list" where
  "hmac_md5 key m =
     (let k0 = (if length key > 64 then md5 key else key);
          k = k0 @ replicate (64 - length k0) 0
      in md5 (map (\<lambda>b. b XOR 0x5c) k @ md5 (map (\<lambda>b. b XOR 0x36) k @ m)))"

section \<open>Data model\<close>

text \<open>
  \<^verbatim>\<open>RR_Header\<close>, \<^verbatim>\<open>Msg\<close>, the interface \<^verbatim>\<open>RR\<close> and the constant \<^verbatim>\<open>TypeTSIG\<close> are
  declared in other files of the package. Of \<^verbatim>\<open>RR_Header\<close> the fields read by
  \<^verbatim>\<open>tsig.go\<close> are kept. Of \<^verbatim>\<open>Msg\<close> the header id (\<^verbatim>\<open>msg.MsgHdr.Id\<close>) and the
  additional section (\<^verbatim>\<open>msg.Extra\<close>) are fields; everything else of a message lives in
  the extension part of the record, which no function below touches.
\<close>

record RR_Header =
  Name :: string
  Rrtype :: "16 word"
  Class :: "16 word"
  Ttl :: "32 word"

text \<open>The values put in wire format so that the MAC can be calculated (RFC 2845, 3.4.2).\<close>

record tsigWireFmt =
  Name :: string
  Class :: "16 word"
  Ttl :: "32 word"
  Algorithm :: string
  TimeSigned :: "64 word"
  Fudge :: "16 word"
  Error :: "16 word"
  OtherLen :: "16 word"
  OtherData :: string

record RR_TSIG =
  Hdr :: RR_Header
  Algorithm :: string
  TimeSigned :: "64 word"
  Fudge :: "16 word"
  MACSize :: "16 word"
  MAC :: string
  OrigId :: "16 word"
  Error :: "16 word"
  OtherLen :: "16 word"
  OtherData :: string

text \<open>
  A resource record is a value of the interface \<^verbatim>\<open>RR\<close>: a TSIG record, or a record of
  another type, of which its header and its opaque data are kept.
\<close>

datatype RR = TSIG RR_TSIG | OtherRR RR_Header "byte list"

fun Header :: "RR \<Rightarrow> RR_Header" where
  "Header (TSIG rr) = Hdr rr"
| "Header (OtherRR h d) = h"

record Msg =
  MsgHdr_Id :: "16 word"
  Extra :: "RR list"

definition HmacMD5 :: string where
  "HmacMD5 = ''HMAC-MD5.SIG-ALG.REG.INT''"



definition TypeTSIG :: "16 word" where
  "TypeTSIG = 250"

section \<open>The functions of the package that tsig.go calls\<close>

text \<open>
  \<^verbatim>\<open>packBase64\<close>, \<^verbatim>\<open>unpackBase64\<close>, \<^verbatim>\<open>packStruct\<close> and \<^verbatim>\<open>(*Msg).Pack\<close> are defined
  in other files of the package. The model takes them as parameters, with the types of
  their call sites:
  \<^item> \<^verbatim>\<open>packBase64(s)\<close> returns bytes and an error: \<open>None\<close> is the error;
  \<^item> \<^verbatim>\<open>unpackBase64(b)\<close> returns one value, which is converted with \<^verbatim>\<open>[]byte(...)\<close>;
  \<^item> \<^verbatim>\<open>packStruct(tsig, buf, 0)\<close> writes into the buffer from offset 0 and returns the
    offset reached and a success flag: the parameter gets the structure and the length of
    the buffer, and returns the bytes \<^verbatim>\<open>buf[:n]\<close> written, or \<open>None\<close> for failure;
  \<^item> \<^verbatim>\<open>msg.Pack()\<close> returns the wire form of the message and a success flag, and is
    taken not to change the message.
\<close>

record 'm env =
  packBase64 :: "byte list \<Rightarrow> byte list option"
  unpackBase64 :: "byte list \<Rightarrow> string"
  packStruct :: "tsigWireFmt \<Rightarrow> nat \<Rightarrow> byte list option"
  Pack :: "'m Msg_scheme \<Rightarrow> byte list option"

text \<open>
  What a call does besides returning: \<^verbatim>\<open>tsigToBuf\<close> prints the buffer on standard
  output, and a digest is computed from a key and a buffer.
\<close>

datatype event = Printed "byte list" | HmacSum "byte list" "byte list"

section \<open>tsigToBuf, Generate and Verify\<close>

definition tsigToBuf :: "'m env \<Rightarrow> RR_TSIG \<Rightarrow> 'm Msg_scheme \<Rightarrow> byte list option \<times> event list" where
  "tsigToBuf e rr msg =
     (let tsig = \<lparr> tsigWireFmt.Name = RR_Header.Name (Header (TSIG rr)),
                   tsigWireFmt.Class = RR_Header.Class (Header (TSIG rr)),
                   tsigWireFmt.Ttl = RR_Header.Ttl (Header (TSIG rr)),
                   tsigWireFmt.Algorithm = RR_TSIG.Algorithm rr,
                   tsigWireFmt.TimeSigned = RR_TSIG.TimeSigned rr,
                   tsigWireFmt.Fudge = RR_TSIG.Fudge rr,
                   tsigWireFmt.Error = RR_TSIG.Error rr,
                   tsigWireFmt.OtherLen = RR_TSIG.OtherLen rr,
                   tsigWireFmt.OtherData = RR_TSIG.OtherData rr \<rparr>
      in case packStruct e tsig 4096 of
           None \<Rightarrow> (None, [])
         | Some buf \<Rightarrow>
             (case Pack e msg of
                None \<Rightarrow> (None, [])
              | Some msgbuf \<Rightarrow> (Some (msgbuf @ buf), [Printed (msgbuf @ buf)])))"

text \<open>
  \<^verbatim>\<open>Generate\<close> gets the record and the message by pointer. The result is the returned
  flag, the record and the message as the caller finds them afterwards, and the events.
  The record is completed before the caller appends it to the message: it is not yet one
  of the records that the message holds. The display form of a record (\<^verbatim>\<open>String\<close>) has
  no part in signing and is left out.
\<close>

definition Generate ::
  "'m env \<Rightarrow> RR_TSIG \<Rightarrow> 'm Msg_scheme \<Rightarrow> string \<Rightarrow> bool \<times> RR_TSIG \<times> 'm Msg_scheme \<times> event list" where
  "Generate e rr msg secret =
     (let rawsecret = unpackBase64 e (bytes_of_string secret)
      in case tsigToBuf e rr msg of
           (None, ev) \<Rightarrow> (False, rr, msg, ev)
         | (Some buf, ev) \<Rightarrow>
             (let key = bytes_of_string rawsecret;
                  data = bytes_of_string (string_of_bytes buf);
                  mac = string_of_bytes (hmac_md5 key data)
              in (True,
                  rr\<lparr> MAC := mac, MACSize := of_nat (length mac), OrigId := MsgHdr_Id msg \<rparr>,
                  msg,
                  ev @ [HmacSum key data])))"

text \<open>
  \<^verbatim>\<open>Verify\<close>: \<^verbatim>\<open>msg2 := msg\<close> copies the pointer, so the two assignments to \<^verbatim>\<open>msg2\<close>
  are assignments to the caller's message. The result is the returned flag, the caller's
  message after the call, and the events.
\<close>

definition Verify ::
  "'m env \<Rightarrow> RR_TSIG \<Rightarrow> 'm Msg_scheme \<Rightarrow> string \<Rightarrow> bool \<times> 'm Msg_scheme \<times> event list" where
  "Verify e rr msg secret =
     (case packBase64 e (bytes_of_string secret) of
        None \<Rightarrow> (False, msg, [])
      | Some rawsecret \<Rightarrow>
          if length (Extra msg) < 1 then (False, msg, [])
          else
            (let tsigrr = Extra msg ! (length (Extra msg) - 1)
             in if Rrtype (Header tsigrr) \<noteq> TypeTSIG then (False, msg, [])
                else
                  (let msg2 = msg\<lparr> MsgHdr_Id := OrigId rr \<rparr>;
                       msg2 = msg2\<lparr> Extra := take (length (Extra msg2) - 1) (Extra msg2) \<rparr>
                   in case tsigToBuf e rr msg2 of
                        (None, ev) \<Rightarrow> (False, msg2, ev)
                      | (Some buf, ev) \<Rightarrow>
                          (let data = bytes_of_string (string_of_bytes buf)
                           in (string_of_bytes (hmac_md5 rawsecret data) = MAC rr,
                               msg2,
                               ev @ [HmacSum rawsecret data])))))"

section \<open>An instance of the package's functions, to run the model\<close>

text \<open>
  The theorems below hold for every choice of the four functions of \<^typ>\<open>'m env\<close>. To
  run \<^const>\<open>Generate\<close> and \<^const>\<open>Verify\<close> on concrete inputs, one instance is written
  out: standard base64 (RFC 4648) for the secret, and the wire format of RFC 1035 and
  RFC 2845 for a message that consists of its header and its additional section.
\<close>

definition b64_alphabet :: string where
  "b64_alphabet = ''ABCDEFGHIJKLMNOPQRSTUVWXYZabcdefghijklmnopqrstuvwxyz0123456789+/''"

definition b64_char :: "32 word \<Rightarrow> char" where
  "b64_char n = b64_alphabet ! unat (n AND 63)"

definition b64_index :: "char \<Rightarrow> 32 word option" where
  "b64_index c = map_of (zip b64_alphabet (map word_of_nat [0..<64])) c"

definition b64_group :: "byte \<Rightarrow> byte \<Rightarrow> byte \<Rightarrow> 32 word" where
  "b64_group a b c = push_bit 16 (ucast a) OR push_bit 8 (ucast b) OR ucast c"

fun b64_encode :: "byte list \<Rightarrow> string" where
  "b64_encode (a # b # c # r) =
     [b64_char (drop_bit 18 (b64_group a b c)), b64_char (drop_bit 12 (b64_group a b c)),
      b64_char (drop_bit 6 (b64_group a b c)), b64_char (b64_group a b c)] @ b64_encode r"
| "b64_encode [a, b] =
     [b64_char (drop_bit 18 (b64_group a b 0)), b64_char (drop_bit 12 (b64_group a b 0)),
      b64_char (drop_bit 6 (b64_group a b 0)), CHR ''='']"
| "b64_encode [a] =
     [b64_char (drop_bit 18 (b64_group a 0 0)), b64_char (drop_bit 12 (b64_group a 0 0)),
      CHR ''='', CHR ''='']"
| "b64_encode [] = []"

definition b64_bytes :: "nat \<Rightarrow> 32 word \<Rightarrow> 32 word \<Rightarrow> 32 word \<Rightarrow> 32 word \<Rightarrow> byte list" where
  "b64_bytes k x y z w =
     take k (be_bytes 3 (push_bit 18 x OR push_bit 12 y OR push_bit 6 z OR w))"

fun b64_decode :: "string \<Rightarrow> byte list option" where
  "b64_decode (a # b # c # d # r) =
     (case (b64_index a, b64_index b) of
        (Some x, Some y) \<Rightarrow>
          if c = CHR ''='' \<and> d = CHR ''='' \<and> r = [] then Some (b64_bytes 1 x y 0 0)
          else
            (case b64_index c of
               None \<Rightarrow> None
             | Some z \<Rightarrow>
                 if d = CHR ''='' \<and> r = [] then Some (b64_bytes 2 x y z 0)
                 else
                   (case b64_index d of
                      None \<Rightarrow> None
                    | Some w \<Rightarrow>
                        (case b64_decode r of
                           None \<Rightarrow> None
                         | Some t \<Rightarrow> Some (b64_bytes 3 x y z w @ t))))
      | _ \<Rightarrow> None)"
| "b64_decode [] = Some []"
| "b64_decode _ = None"

text \<open>
  Modelled from the spec: \<^verbatim>\<open>packBase64\<close> and \<^verbatim>\<open>unpackBase64\<close> are not in
  \<^verbatim>\<open>tsig.go\<close>. \<^verbatim>\<open>packBase64\<close> decodes the transport (base64) encoding of the secret
  and reports malformed input as an error. \<^verbatim>\<open>unpackBase64\<close> is its counterpart in the
  package's naming (pack: presentation form to wire form, unpack: wire form to
  presentation form) and has no error result at its call site: it gives the base64 text of
  the bytes it gets.
\<close>

definition packBase64_std :: "byte list \<Rightarrow> byte list option" where
  "packBase64_std s = b64_decode (string_of_bytes s)"

definition unpackBase64_std :: "byte list \<Rightarrow> string" where
  "unpackBase64_std b = b64_encode b"

fun labels :: "string \<Rightarrow> string \<Rightarrow> string list" where
  "labels acc [] = (if acc = [] then [] else [acc])"
| "labels acc (c # cs) = (if c = CHR ''.'' then acc # labels [] cs else labels (acc @ [c]) cs)"

definition packDomainName :: "string \<Rightarrow> byte list option" where
  "packDomainName s =
     (if s = [] \<or> s = ''.'' then Some [0]
      else if list_ex (\<lambda>l. l = [] \<or> 63 < length l) (labels [] s) then None
      else Some (concat (map (\<lambda>l. of_nat (length l) # bytes_of_string l) (labels [] s)) @ [0]))"

text \<open>
  Modelled from the spec: \<^verbatim>\<open>packStruct\<close> on the canonical signing fields. Domain names
  are written without compression, integers big-endian in their fixed width (the time
  signed in 48 bits), the other data as it is. It fails when a name is malformed, when the
  declared and the actual length of the other data differ, and when the buffer is too
  short.
\<close>

definition packStruct_wire :: "tsigWireFmt \<Rightarrow> nat \<Rightarrow> byte list option" where
  "packStruct_wire w n =
     (case (packDomainName (tsigWireFmt.Name w), packDomainName (tsigWireFmt.Algorithm w)) of
        (Some name, Some alg) \<Rightarrow>
          (let out = name @ be_bytes 2 (tsigWireFmt.Class w) @ be_bytes 4 (tsigWireFmt.Ttl w)
                     @ alg @ be_bytes 6 (tsigWireFmt.TimeSigned w)
                     @ be_bytes 2 (tsigWireFmt.Fudge w) @ be_bytes 2 (tsigWireFmt.Error w)
                     @ be_bytes 2 (tsigWireFmt.OtherLen w)
                     @ bytes_of_string (tsigWireFmt.OtherData w)
           in if length (tsigWireFmt.OtherData w) \<noteq> unat (tsigWireFmt.OtherLen w) \<or> n < length out
              then None else Some out)
      | _ \<Rightarrow> None)"

definition packRdata :: "RR \<Rightarrow> byte list option" where
  "packRdata r =
     (case r of
        OtherRR h d \<Rightarrow> Some d
      | TSIG rr \<Rightarrow>
          (case packDomainName (RR_TSIG.Algorithm rr) of
             None \<Rightarrow> None
           | Some alg \<Rightarrow>
               Some (alg @ be_bytes 6 (RR_TSIG.TimeSigned rr) @ be_bytes 2 (RR_TSIG.Fudge rr)
                     @ be_bytes 2 (MACSize rr) @ bytes_of_string (MAC rr)
                     @ be_bytes 2 (OrigId rr) @ be_bytes 2 (RR_TSIG.Error rr)
                     @ be_bytes 2 (RR_TSIG.OtherLen rr)
                     @ bytes_of_string (RR_TSIG.OtherData rr))))"

definition packRR :: "RR \<Rightarrow> byte list option" where
  "packRR r =
     (case (packDomainName (RR_Header.Name (Header r)), packRdata r) of
        (Some name, Some rdata) \<Rightarrow>
          Some (name @ be_bytes 2 (Rrtype (Header r)) @ be_bytes 2 (RR_Header.Class (Header r))
                @ be_bytes 4 (RR_Header.Ttl (Header r))
                @ be_bytes 2 (word_of_nat (length rdata) :: 16 word) @ rdata)
      | _ \<Rightarrow> None)"

fun packRRs :: "RR list \<Rightarrow> byte list option" where
  "packRRs [] = Some []"
| "packRRs (r # rs) =
     (case (packRR r, packRRs rs) of (Some b, Some bs) \<Rightarrow> Some (b @ bs) | _ \<Rightarrow> None)"

text \<open>
  Modelled from the spec: \<^verbatim>\<open>(*Msg).Pack\<close> for a message of which only the header id
  and the ordered list of trailing records matter: the twelve bytes of the header (the id,
  no flags, no question, answer or authority records, the number of additional records),
  then the additional records. It fails when a record does not serialize.
\<close>

definition Pack_wire :: "Msg \<Rightarrow> byte list option" where
  "Pack_wire msg =
     (case packRRs (Extra msg) of
        None \<Rightarrow> None
      | Some rrs \<Rightarrow>
          Some (be_bytes 2 (MsgHdr_Id msg) @ [0, 0, 0, 0, 0, 0, 0, 0]
                @ be_bytes 2 (word_of_nat (length (Extra msg)) :: 16 word) @ rrs))"

definition wire_env :: "unit env" where
  "wire_env = \<lparr> packBase64 = packBase64_std, unpackBase64 = unpackBase64_std,
                packStruct = packStruct_wire, Pack = Pack_wire \<rparr>"

text \<open>A key record, a message with header id 1000, and the secret of three zero bytes.\<close>

definition hdr0 :: RR_Header where
  "hdr0 = \<lparr> RR_Header.Name = ''k.'', Rrtype = TypeTSIG, RR_Header.Class = 255, RR_Header.Ttl = 0 \<rparr>"

definition rr0 :: RR_TSIG where
  "rr0 = \<lparr> Hdr = hdr0, RR_TSIG.Algorithm = HmacMD5, RR_TSIG.TimeSigned = 1300000000,
           RR_TSIG.Fudge = 300, MACSize = 0, MAC = [], OrigId = 0, RR_TSIG.Error = 0,
           RR_TSIG.OtherLen = 0, RR_TSIG.OtherData = [] \<rparr>"

definition msg0 :: Msg where
  "msg0 = \<lparr> MsgHdr_Id = 1000, Extra = [] \<rparr>"

definition secret0 :: string where
  "secret0 = ''AAAA''"

text \<open>A record of another type (an address record), as a last record that is no signature.\<close>

definition rr_other :: RR where
  "rr_other = OtherRR \<lparr> RR_Header.Name = ''a.'', Rrtype = 1, RR_Header.Class = 1, RR_Header.Ttl = 60 \<rparr>
                [192, 0, 2, 1]"

section \<open>Basic facts\<close>

lemma unat_byte_mod: "unat (x :: byte) mod 256 = unat x"
  using unsigned_less [of x, where ?'a = nat] by simp

lemma bytes_of_string_of_bytes [simp]: "bytes_of_string (string_of_bytes b) = b"
  by (simp add: bytes_of_string_def string_of_bytes_def comp_def unat_byte_mod map_idI)

lemma string_of_bytes_of_string [simp]: "string_of_bytes (bytes_of_string s) = s"
  by (simp add: bytes_of_string_def string_of_bytes_def comp_def unat_of_nat map_idI)

lemma string_of_bytes_eq_iff [simp]: "string_of_bytes a = string_of_bytes b \<longleftrightarrow> a = b"
  by (metis bytes_of_string_of_bytes)

lemma length_string_of_bytes [simp]: "length (string_of_bytes b) = length b"
  by (simp add: string_of_bytes_def)

lemma length_le_bytes [simp]: "length (le_bytes n w) = n"
  by (simp add: le_bytes_def)

lemma length_md5 [simp]: "length (md5 m) = 16"
proof -
  obtain a b c d where
    "foldl md5_block (0x67452301, 0xefcdab89, 0x98badcfe, 0x10325476)
       (chunks (length (md5_pad m) div 64) 64 (md5_pad m)) = (a, b, c, d)"
    using prod_cases4 by blast
  then show ?thesis
    by (simp add: md5_def Let_def)
qed

lemma length_hmac_md5 [simp]: "length (hmac_md5 key m) = 16"
  by (simp add: hmac_md5_def Let_def)

text \<open>The last element and the list without it, as \<^verbatim>\<open>Verify\<close> computes them.\<close>

lemma nth_length_minus_1: "xs \<noteq> [] \<Longrightarrow> xs ! (length xs - Suc 0) = last xs"
  by (simp add: last_conv_nth)

lemma take_length_minus_1: "take (length xs - Suc 0) xs = butlast xs"
  by (simp add: butlast_conv_take)

text \<open>The record's MAC, MAC size and original id do not enter the signing buffer.\<close>

lemma tsigToBuf_ignores_mac:
  "tsigToBuf e (rr\<lparr> MAC := m, MACSize := s, OrigId := i \<rparr>) msg = tsigToBuf e rr msg"
  by (simp add: tsigToBuf_def)

lemma tsigToBuf_cases:
  "tsigToBuf e rr msg = (None, []) \<or> (\<exists>buf. tsigToBuf e rr msg = (Some buf, [Printed buf]))"
  by (auto simp: tsigToBuf_def Let_def split: option.splits)

lemma tsigToBuf_Some: "fst (tsigToBuf e rr msg) = Some buf \<Longrightarrow> tsigToBuf e rr msg = (Some buf, [Printed buf])"
  using tsigToBuf_cases [of e rr msg] by auto

lemma tsigToBuf_None: "fst (tsigToBuf e rr msg) = None \<Longrightarrow> tsigToBuf e rr msg = (None, [])"
  using tsigToBuf_cases [of e rr msg] by auto

text \<open>What \<^verbatim>\<open>Generate\<close> returns, by the outcome of the buffer construction.\<close>

lemma Generate_Some:
  "fst (tsigToBuf e rr msg) = Some buf \<Longrightarrow>
   Generate e rr msg secret =
     (True,
      rr\<lparr> MAC := string_of_bytes (hmac_md5 (bytes_of_string (unpackBase64 e (bytes_of_string secret))) buf),
          MACSize := 16, OrigId := MsgHdr_Id msg \<rparr>,
      msg,
      [Printed buf, HmacSum (bytes_of_string (unpackBase64 e (bytes_of_string secret))) buf])"
  by (simp add: Generate_def Let_def tsigToBuf_Some)

lemma Generate_None:
  "fst (tsigToBuf e rr msg) = None \<Longrightarrow> Generate e rr msg secret = (False, rr, msg, [])"
  by (simp add: Generate_def Let_def tsigToBuf_None)

text \<open>Whether \<^verbatim>\<open>Generate\<close> succeeds does not depend on the secret.\<close>

lemma Generate_succeeds_iff:
  "fst (Generate e rr msg secret) = (fst (tsigToBuf e rr msg) \<noteq> None)"
  by (cases "fst (tsigToBuf e rr msg)") (simp_all add: Generate_Some Generate_None)

text \<open>What \<^verbatim>\<open>Verify\<close> returns, by the checks in their order.\<close>

lemma Verify_bad_secret:
  "packBase64 e (bytes_of_string secret) = None \<Longrightarrow> Verify e rr msg secret = (False, msg, [])"
  by (simp add: Verify_def)

lemma Verify_no_extra:
  "Extra msg = [] \<Longrightarrow> Verify e rr msg secret = (False, msg, [])"
  by (simp add: Verify_def split: option.splits)

lemma Verify_wrong_type:
  "Extra msg \<noteq> [] \<Longrightarrow> Rrtype (Header (last (Extra msg))) \<noteq> TypeTSIG \<Longrightarrow>
   Verify e rr msg secret = (False, msg, [])"
  by (simp add: Verify_def Let_def nth_length_minus_1 split: option.splits)

lemma Verify_checked:
  "packBase64 e (bytes_of_string secret) = Some k \<Longrightarrow> Extra msg \<noteq> [] \<Longrightarrow>
   Rrtype (Header (last (Extra msg))) = TypeTSIG \<Longrightarrow>
   Verify e rr msg secret =
     (case fst (tsigToBuf e rr (msg\<lparr> MsgHdr_Id := OrigId rr, Extra := butlast (Extra msg) \<rparr>)) of
        None \<Rightarrow> (False, msg\<lparr> MsgHdr_Id := OrigId rr, Extra := butlast (Extra msg) \<rparr>, [])
      | Some buf \<Rightarrow>
          (string_of_bytes (hmac_md5 k buf) = MAC rr,
           msg\<lparr> MsgHdr_Id := OrigId rr, Extra := butlast (Extra msg) \<rparr>,
           [Printed buf, HmacSum k buf]))"
proof -
  assume a: "packBase64 e (bytes_of_string secret) = Some k" "Extra msg \<noteq> []"
    "Rrtype (Header (last (Extra msg))) = TypeTSIG"
  let ?m = "msg\<lparr> MsgHdr_Id := OrigId rr, Extra := butlast (Extra msg) \<rparr>"
  from tsigToBuf_cases [of e rr ?m] show ?thesis
  proof
    assume "tsigToBuf e rr ?m = (None, [])"
    with a show ?thesis
      by (simp add: Verify_def Let_def nth_length_minus_1 take_length_minus_1)
  next
    assume "\<exists>buf. tsigToBuf e rr ?m = (Some buf, [Printed buf])"
    then obtain buf where "tsigToBuf e rr ?m = (Some buf, [Printed buf])" ..
    with a show ?thesis
      by (simp add: Verify_def Let_def nth_length_minus_1 take_length_minus_1)
  qed
qed

section \<open>The instance at the example inputs\<close>

lemma signing_buffer_example:
  "fst (tsigToBuf wire_env rr0 msg0) =
     Some [3, 232, 0, 0, 0, 0, 0, 0, 0, 0, 0, 0, 1, 107, 0, 0, 255, 0, 0, 0, 0, 8,
           72, 77, 65, 67, 45, 77, 68, 53, 7, 83, 73, 71, 45, 65, 76, 71, 3, 82,
           69, 71, 3, 73, 78, 84, 0, 0, 0, 77, 124, 109, 0, 1, 44, 0, 0, 0, 0]"
  by code_simp

lemma secret_decoded_example: "packBase64 wire_env (bytes_of_string secret0) = Some [0, 0, 0]"
  by code_simp

lemma secret_encoded_example:
  "bytes_of_string (unpackBase64 wire_env (bytes_of_string secret0)) =
     [81, 85, 70, 66, 81, 81, 61, 61]"
  by code_simp

lemma secret_malformed_example: "packBase64 wire_env (bytes_of_string ''!'') = None"
  by code_simp


lemma rrtype_rr0: "Rrtype (Hdr rr0) = TypeTSIG"
  by (simp add: rr0_def hdr0_def)

lemma rrtype_rr_other: "Rrtype (Header rr_other) \<noteq> TypeTSIG"
  by (simp add: rr_other_def TypeTSIG_def)


lemma digest_encoded_key_example:
  "hmac_md5 [81, 85, 70, 66, 81, 81, 61, 61]
     [3, 232, 0, 0, 0, 0, 0, 0, 0, 0, 0, 0, 1, 107, 0, 0, 255, 0, 0, 0, 0, 8,
      72, 77, 65, 67, 45, 77, 68, 53, 7, 83, 73, 71, 45, 65, 76, 71, 3, 82,
      69, 71, 3, 73, 78, 84, 0, 0, 0, 77, 124, 109, 0, 1, 44, 0, 0, 0, 0]
   = [182, 61, 123, 120, 144, 51, 124, 132, 28, 80, 212, 76, 61, 61, 230, 60]"
  by code_simp

lemma digest_decoded_key_example:
  "hmac_md5 [0, 0, 0]
     [3, 232, 0, 0, 0, 0, 0, 0, 0, 0, 0, 0, 1, 107, 0, 0, 255, 0, 0, 0, 0, 8,
      72, 77, 65, 67, 45, 77, 68, 53, 7, 83, 73, 71, 45, 65, 76, 71, 3, 82,
      69, 71, 3, 73, 78, 84, 0, 0, 0, 77, 124, 109, 0, 1, 44, 0, 0, 0, 0]
   = [228, 30, 108, 153, 221, 33, 150, 97, 7, 160, 224, 106, 184, 23, 198, 243]"
  by code_simp

section \<open>Signing, then verifying\<close>

text \<open>
  \<^verbatim>\<open>Generate\<close> keys the digest with the bytes of \<^verbatim>\<open>unpackBase64(secret)\<close>,
  \<^verbatim>\<open>Verify\<close> with the bytes \<^verbatim>\<open>packBase64(secret)\<close>. When the completed record is
  appended to the message, and whatever header id the message then carries, \<^verbatim>\<open>Verify\<close>
  rebuilds the buffer that was signed, and accepts exactly when the two keys give the same
  digest of it.
\<close>

lemma Verify_after_Generate:
  assumes buf: "fst (tsigToBuf e rr msg) = Some buf"
    and key: "packBase64 e (bytes_of_string secret) = Some k"
    and ty: "Rrtype (Hdr rr) = TypeTSIG"
  shows "fst (Verify e (fst (snd (Generate e rr msg secret)))
                (msg\<lparr> MsgHdr_Id := i,
                      Extra := Extra msg @ [TSIG (fst (snd (Generate e rr msg secret)))] \<rparr>) secret)
         = (hmac_md5 k buf = hmac_md5 (bytes_of_string (unpackBase64 e (bytes_of_string secret))) buf)"
proof -
  let ?k' = "bytes_of_string (unpackBase64 e (bytes_of_string secret))"
  let ?rr = "rr\<lparr> MAC := string_of_bytes (hmac_md5 ?k' buf), MACSize := 16, OrigId := MsgHdr_Id msg \<rparr>"
  let ?m = "msg\<lparr> MsgHdr_Id := i, Extra := Extra msg @ [TSIG ?rr] \<rparr>"
  have g: "fst (snd (Generate e rr msg secret)) = ?rr"
    by (simp add: Generate_Some [OF buf])
  have restored: "?m\<lparr> MsgHdr_Id := OrigId ?rr, Extra := butlast (Extra ?m) \<rparr> = msg"
    by simp
  have b: "fst (tsigToBuf e ?rr msg) = Some buf"
    using buf by (simp add: tsigToBuf_ignores_mac)
  have "Verify e ?rr ?m secret =
          (string_of_bytes (hmac_md5 k buf) = MAC ?rr, msg, [Printed buf, HmacSum k buf])"
    using Verify_checked [of e secret k ?m ?rr] key ty b by (simp only: restored) simp
  then show ?thesis
    by (simp add: g)
qed

text \<open>The header id that the message carries does not enter the decision of \<^verbatim>\<open>Verify\<close>.\<close>

lemma Verify_ignores_header_id:
  "fst (Verify e rr (msg\<lparr> MsgHdr_Id := i \<rparr>) secret) = fst (Verify e rr msg secret)"
  by (simp add: Verify_def Let_def split: option.splits)

lemma tsigToBuf_ignores_OrigId [simp]: "tsigToBuf e (rr\<lparr> OrigId := i \<rparr>) msg = tsigToBuf e rr msg"
  by (simp add: tsigToBuf_def)

lemma tsigToBuf_ignores_MAC [simp]: "tsigToBuf e (rr\<lparr> MAC := m \<rparr>) msg = tsigToBuf e rr msg"
  by (simp add: tsigToBuf_def)

lemma tsigToBuf_ignores_MACSize [simp]: "tsigToBuf e (rr\<lparr> MACSize := s \<rparr>) msg = tsigToBuf e rr msg"
  by (simp add: tsigToBuf_def)

lemma msg0_restored [simp]: "msg0\<lparr> MsgHdr_Id := 1000, Extra := [] \<rparr> = msg0"
  by (simp add: msg0_def)

section \<open>The canonical signing buffer\<close>

text \<open>
  C3. When \<^verbatim>\<open>tsigToBuf\<close> succeeds, its buffer is the wire form of the message followed
  by the wire form of the projection of the record: owner name, class, ttl, algorithm
  name, time signed, fudge, error, other length and other data. MAC size, MAC and original
  id are no part of it, so changing them changes nothing; and this buffer is what
  \<^verbatim>\<open>Generate\<close> digests.
\<close>

theorem tsigToBuf_canonical:
  assumes "fst (tsigToBuf e rr msg) = Some buf"
  shows "(\<exists>msgbuf tsigbuf.
            Pack e msg = Some msgbuf \<and>
            packStruct e \<lparr> tsigWireFmt.Name = RR_Header.Name (Hdr rr),
                           tsigWireFmt.Class = RR_Header.Class (Hdr rr),
                           tsigWireFmt.Ttl = RR_Header.Ttl (Hdr rr),
                           tsigWireFmt.Algorithm = RR_TSIG.Algorithm rr,
                           tsigWireFmt.TimeSigned = RR_TSIG.TimeSigned rr,
                           tsigWireFmt.Fudge = RR_TSIG.Fudge rr,
                           tsigWireFmt.Error = RR_TSIG.Error rr,
                           tsigWireFmt.OtherLen = RR_TSIG.OtherLen rr,
                           tsigWireFmt.OtherData = RR_TSIG.OtherData rr \<rparr> 4096 = Some tsigbuf \<and>
            buf = msgbuf @ tsigbuf)
         \<and> fst (tsigToBuf e (rr\<lparr> MACSize := s, MAC := m, OrigId := i \<rparr>) msg) = Some buf
         \<and> snd (snd (snd (Generate e rr msg secret))) =
             [Printed buf, HmacSum (bytes_of_string (unpackBase64 e (bytes_of_string secret))) buf]"
proof (intro conjI)
  from assms show "\<exists>msgbuf tsigbuf.
            Pack e msg = Some msgbuf \<and>
            packStruct e \<lparr> tsigWireFmt.Name = RR_Header.Name (Hdr rr),
                           tsigWireFmt.Class = RR_Header.Class (Hdr rr),
                           tsigWireFmt.Ttl = RR_Header.Ttl (Hdr rr),
                           tsigWireFmt.Algorithm = RR_TSIG.Algorithm rr,
                           tsigWireFmt.TimeSigned = RR_TSIG.TimeSigned rr,
                           tsigWireFmt.Fudge = RR_TSIG.Fudge rr,
                           tsigWireFmt.Error = RR_TSIG.Error rr,
                           tsigWireFmt.OtherLen = RR_TSIG.OtherLen rr,
                           tsigWireFmt.OtherData = RR_TSIG.OtherData rr \<rparr> 4096 = Some tsigbuf \<and>
            buf = msgbuf @ tsigbuf"
    by (auto simp: tsigToBuf_def Let_def split: option.splits)
next
  from assms show "fst (tsigToBuf e (rr\<lparr> MACSize := s, MAC := m, OrigId := i \<rparr>) msg) = Some buf"
    by simp
next
  from assms show "snd (snd (snd (Generate e rr msg secret))) =
      [Printed buf, HmacSum (bytes_of_string (unpackBase64 e (bytes_of_string secret))) buf]"
    by (simp add: Generate_Some)
qed

theorem tsigToBuf_canonical_witness:
  "fst (tsigToBuf wire_env rr0 msg0) =
     Some [3, 232, 0, 0, 0, 0, 0, 0, 0, 0, 0, 0, 1, 107, 0, 0, 255, 0, 0, 0, 0, 8,
           72, 77, 65, 67, 45, 77, 68, 53, 7, 83, 73, 71, 45, 65, 76, 71, 3, 82,
           69, 71, 3, 73, 78, 84, 0, 0, 0, 77, 124, 109, 0, 1, 44, 0, 0, 0, 0]
   \<and> Pack wire_env msg0 = Some [3, 232, 0, 0, 0, 0, 0, 0, 0, 0, 0, 0]
   \<and> (\<exists>msgbuf tsigbuf.
         Pack wire_env msg0 = Some msgbuf \<and>
         packStruct wire_env \<lparr> tsigWireFmt.Name = ''k.'', tsigWireFmt.Class = 255,
                               tsigWireFmt.Ttl = 0, tsigWireFmt.Algorithm = HmacMD5,
                               tsigWireFmt.TimeSigned = 1300000000, tsigWireFmt.Fudge = 300,
                               tsigWireFmt.Error = 0, tsigWireFmt.OtherLen = 0,
                               tsigWireFmt.OtherData = [] \<rparr> 4096 = Some tsigbuf \<and>
         [3, 232, 0, 0, 0, 0, 0, 0, 0, 0, 0, 0, 1, 107, 0, 0, 255, 0, 0, 0, 0, 8,
          72, 77, 65, 67, 45, 77, 68, 53, 7, 83, 73, 71, 45, 65, 76, 71, 3, 82,
          69, 71, 3, 73, 78, 84, 0, 0, 0, 77, 124, 109, 0, 1, 44, 0, 0, 0, 0] = msgbuf @ tsigbuf)
   \<and> fst (tsigToBuf wire_env (rr0\<lparr> MACSize := 16, MAC := ''0123456789abcdef'', OrigId := 7 \<rparr>) msg0) =
     Some [3, 232, 0, 0, 0, 0, 0, 0, 0, 0, 0, 0, 1, 107, 0, 0, 255, 0, 0, 0, 0, 8,
           72, 77, 65, 67, 45, 77, 68, 53, 7, 83, 73, 71, 45, 65, 76, 71, 3, 82,
           69, 71, 3, 73, 78, 84, 0, 0, 0, 77, 124, 109, 0, 1, 44, 0, 0, 0, 0]
   \<and> snd (snd (snd (Generate wire_env rr0 msg0 secret0))) =
     [Printed [3, 232, 0, 0, 0, 0, 0, 0, 0, 0, 0, 0, 1, 107, 0, 0, 255, 0, 0, 0, 0, 8,
               72, 77, 65, 67, 45, 77, 68, 53, 7, 83, 73, 71, 45, 65, 76, 71, 3, 82,
               69, 71, 3, 73, 78, 84, 0, 0, 0, 77, 124, 109, 0, 1, 44, 0, 0, 0, 0],
      HmacSum [81, 85, 70, 66, 81, 81, 61, 61]
              [3, 232, 0, 0, 0, 0, 0, 0, 0, 0, 0, 0, 1, 107, 0, 0, 255, 0, 0, 0, 0, 8,
               72, 77, 65, 67, 45, 77, 68, 53, 7, 83, 73, 71, 45, 65, 76, 71, 3, 82,
               69, 71, 3, 73, 78, 84, 0, 0, 0, 77, 124, 109, 0, 1, 44, 0, 0, 0, 0]]"
proof -
  note t = tsigToBuf_canonical [OF signing_buffer_example,
      where s = 16 and m = "''0123456789abcdef''" and i = 7 and secret = secret0]
  have p: "Pack wire_env msg0 = Some [3, 232, 0, 0, 0, 0, 0, 0, 0, 0, 0, 0]"
    by code_simp
  have f: "RR_Header.Name (Hdr rr0) = ''k.''" "RR_Header.Class (Hdr rr0) = 255"
    "RR_Header.Ttl (Hdr rr0) = 0" "RR_TSIG.Algorithm rr0 = HmacMD5"
    "RR_TSIG.TimeSigned rr0 = 1300000000" "RR_TSIG.Fudge rr0 = 300" "RR_TSIG.Error rr0 = 0"
    "RR_TSIG.OtherLen rr0 = 0" "RR_TSIG.OtherData rr0 = []"
    by (simp_all add: rr0_def hdr0_def)
  note e = t [unfolded f, THEN conjunct1]
  note m = t [THEN conjunct2, THEN conjunct1]
  note g = t [THEN conjunct2, THEN conjunct2, unfolded secret_encoded_example]
  show ?thesis
    by (intro conjI) (rule signing_buffer_example p e m g)+
qed

section \<open>Generate\<close>

text \<open>
  C4. When \<^verbatim>\<open>Generate\<close> succeeds, the record's MAC is the digest of the signing buffer,
  its MAC size is the number of bytes of the MAC, its original id is the header id of the
  message; no other field of the record has changed, and the message is as it was.
\<close>

theorem Generate_postconditions:
  assumes "Generate e rr msg secret = (True, rr', msg', ev)"
  shows "(\<exists>buf. fst (tsigToBuf e rr msg) = Some buf \<and>
            MAC rr' = string_of_bytes
              (hmac_md5 (bytes_of_string (unpackBase64 e (bytes_of_string secret))) buf))
         \<and> unat (MACSize rr') = length (MAC rr')
         \<and> OrigId rr' = MsgHdr_Id msg
         \<and> rr' = rr\<lparr> MAC := MAC rr', MACSize := MACSize rr', OrigId := OrigId rr' \<rparr>
         \<and> msg' = msg"
proof (cases "fst (tsigToBuf e rr msg)")
  case None
  with assms show ?thesis
    by (simp add: Generate_None)
next
  case (Some buf)
  with assms show ?thesis
    by (auto simp: Generate_Some)
qed

theorem Generate_postconditions_witness:
  "fst (Generate wire_env rr0 msg0 secret0) = True
   \<and> unat (MACSize (fst (snd (Generate wire_env rr0 msg0 secret0)))) = 16
   \<and> length (MAC (fst (snd (Generate wire_env rr0 msg0 secret0)))) = 16
   \<and> OrigId (fst (snd (Generate wire_env rr0 msg0 secret0))) = 1000
   \<and> fst (snd (snd (Generate wire_env rr0 msg0 secret0))) = msg0"
proof -
  obtain rr' ev where g: "Generate wire_env rr0 msg0 secret0 = (True, rr', msg0, ev)"
    by (simp add: Generate_Some [OF signing_buffer_example])
  from Generate_postconditions [OF g] have
    "unat (MACSize rr') = length (MAC rr')" "OrigId rr' = MsgHdr_Id msg0"
    "\<exists>buf. MAC rr' = string_of_bytes
        (hmac_md5 (bytes_of_string (unpackBase64 wire_env (bytes_of_string secret0))) buf)"
    by auto
  moreover have "MsgHdr_Id msg0 = 1000"
    by (simp add: msg0_def)
  ultimately have "unat (MACSize rr') = 16" "length (MAC rr') = 16" "OrigId rr' = 1000"
    by auto
  then show ?thesis
    by (simp add: g)
qed

section \<open>Verify\<close>

text \<open>
  C6. A message whose additional section is empty, or whose last additional record is not
  of type TSIG, is rejected, and nothing has been computed by then: no buffer is built and
  no digest is taken.
\<close>

theorem Verify_missing_signature:
  assumes "Extra msg = [] \<or> Rrtype (Header (last (Extra msg))) \<noteq> TypeTSIG"
  shows "fst (Verify e rr msg secret) = False \<and> snd (snd (Verify e rr msg secret)) = []"
proof (cases "packBase64 e (bytes_of_string secret)")
  case None
  then show ?thesis
    by (simp add: Verify_bad_secret)
next
  case (Some k)
  show ?thesis
  proof (cases "Extra msg = []")
    case True
    then show ?thesis
      by (simp add: Verify_no_extra)
  next
    case False
    with assms show ?thesis
      by (simp add: Verify_wrong_type)
  qed
qed

theorem Verify_missing_signature_witness:
  "Extra msg0 = []
   \<and> fst (Verify wire_env rr0 msg0 secret0) = False
   \<and> snd (snd (Verify wire_env rr0 msg0 secret0)) = []
   \<and> Rrtype (Header (last (Extra (msg0\<lparr> Extra := [TSIG rr0, rr_other] \<rparr>)))) \<noteq> TypeTSIG
   \<and> fst (Verify wire_env rr0 (msg0\<lparr> Extra := [TSIG rr0, rr_other] \<rparr>) secret0) = False
   \<and> snd (snd (Verify wire_env rr0 (msg0\<lparr> Extra := [TSIG rr0, rr_other] \<rparr>) secret0)) = []"
proof -
  have a: "Extra msg0 = []"
    by (simp add: msg0_def)
  have b: "Rrtype (Header (last (Extra (msg0\<lparr> Extra := [TSIG rr0, rr_other] \<rparr>)))) \<noteq> TypeTSIG"
    by (simp add: rrtype_rr_other)
  show ?thesis
    using a b
      Verify_missing_signature [where msg = msg0 and e = wire_env and rr = rr0 and secret = secret0]
      Verify_missing_signature [where msg = "msg0\<lparr> Extra := [TSIG rr0, rr_other] \<rparr>"
        and e = wire_env and rr = rr0 and secret = secret0]
    by simp
qed

text \<open>
  C10. When the secret does not decode, when the additional section is empty, or when its
  last record is not of type TSIG, \<^verbatim>\<open>Verify\<close> rejects and the caller's message is as it
  was. The header id is overwritten and the last record removed only when all three
  checks have passed; then they are, whatever follows.
\<close>

theorem Verify_early_reject_keeps_message:
  "(packBase64 e (bytes_of_string secret) = None \<or> Extra msg = [] \<or>
      Rrtype (Header (last (Extra msg))) \<noteq> TypeTSIG
    \<longrightarrow> fst (Verify e rr msg secret) = False \<and> fst (snd (Verify e rr msg secret)) = msg)
   \<and> (packBase64 e (bytes_of_string secret) \<noteq> None \<and> Extra msg \<noteq> [] \<and>
      Rrtype (Header (last (Extra msg))) = TypeTSIG
    \<longrightarrow> fst (snd (Verify e rr msg secret)) =
          msg\<lparr> MsgHdr_Id := OrigId rr, Extra := butlast (Extra msg) \<rparr>)"
proof (intro conjI impI)
  assume "packBase64 e (bytes_of_string secret) = None \<or> Extra msg = [] \<or>
      Rrtype (Header (last (Extra msg))) \<noteq> TypeTSIG"
  then have "Verify e rr msg secret = (False, msg, [])"
    using Verify_bad_secret [of e secret rr msg] Verify_no_extra [of msg e rr secret]
      Verify_wrong_type [of msg e rr secret]
    by blast
  then show "fst (Verify e rr msg secret) = False" "fst (snd (Verify e rr msg secret)) = msg"
    by simp_all
next
  assume "packBase64 e (bytes_of_string secret) \<noteq> None \<and> Extra msg \<noteq> [] \<and>
      Rrtype (Header (last (Extra msg))) = TypeTSIG"
  then obtain k where "packBase64 e (bytes_of_string secret) = Some k" "Extra msg \<noteq> []"
    "Rrtype (Header (last (Extra msg))) = TypeTSIG"
    by auto
  from Verify_checked [OF this, of rr]
  show "fst (snd (Verify e rr msg secret)) =
          msg\<lparr> MsgHdr_Id := OrigId rr, Extra := butlast (Extra msg) \<rparr>"
    by (simp split: option.splits)
qed

theorem Verify_early_reject_keeps_message_witness:
  "packBase64 wire_env (bytes_of_string ''!'') = None
   \<and> fst (Verify wire_env rr0 (msg0\<lparr> Extra := [TSIG rr0] \<rparr>) ''!'') = False
   \<and> fst (snd (Verify wire_env rr0 (msg0\<lparr> Extra := [TSIG rr0] \<rparr>) ''!'')) = msg0\<lparr> Extra := [TSIG rr0] \<rparr>
   \<and> Extra msg0 = []
   \<and> fst (Verify wire_env rr0 msg0 secret0) = False
   \<and> fst (snd (Verify wire_env rr0 msg0 secret0)) = msg0
   \<and> Rrtype (Header (last (Extra (msg0\<lparr> Extra := [rr_other] \<rparr>)))) \<noteq> TypeTSIG
   \<and> fst (Verify wire_env rr0 (msg0\<lparr> Extra := [rr_other] \<rparr>) secret0) = False
   \<and> fst (snd (Verify wire_env rr0 (msg0\<lparr> Extra := [rr_other] \<rparr>) secret0)) = msg0\<lparr> Extra := [rr_other] \<rparr>
   \<and> packBase64 wire_env (bytes_of_string secret0) \<noteq> None
   \<and> Extra (msg0\<lparr> Extra := [TSIG rr0] \<rparr>) \<noteq> []
   \<and> Rrtype (Header (last (Extra (msg0\<lparr> Extra := [TSIG rr0] \<rparr>)))) = TypeTSIG
   \<and> fst (snd (Verify wire_env rr0 (msg0\<lparr> Extra := [TSIG rr0] \<rparr>) secret0)) =
       msg0\<lparr> MsgHdr_Id := OrigId rr0, Extra := [] \<rparr>"
proof -
  have a: "Extra msg0 = []"
    by (simp add: msg0_def)
  show ?thesis
    using a secret_malformed_example secret_decoded_example rrtype_rr0 rrtype_rr_other
      Verify_early_reject_keeps_message [where e = wire_env and secret = "''!''" and msg = "msg0\<lparr> Extra := [TSIG rr0] \<rparr>" and rr = rr0]
      Verify_early_reject_keeps_message [where e = wire_env and secret = secret0 and msg = msg0 and rr = rr0]
      Verify_early_reject_keeps_message [where e = wire_env and secret = secret0 and msg = "msg0\<lparr> Extra := [rr_other] \<rparr>" and rr = rr0]
      Verify_early_reject_keeps_message [where e = wire_env and secret = secret0 and msg = "msg0\<lparr> Extra := [TSIG rr0] \<rparr>" and rr = rr0]
    by simp
qed

text \<open>
  C9. The last additional record of the message is read for its type only. Two messages
  that differ in that record alone, by anything but its type, get the same answer and the
  same computation; when the checks pass, the recomputed digest is compared with the MAC
  of the record given as the argument.
\<close>

theorem Verify_reads_type_of_last_record_only:
  "(Rrtype (Header r1) = Rrtype (Header r2) \<longrightarrow>
      fst (Verify e rr (msg\<lparr> Extra := xs @ [r1] \<rparr>) secret) =
        fst (Verify e rr (msg\<lparr> Extra := xs @ [r2] \<rparr>) secret)
      \<and> snd (snd (Verify e rr (msg\<lparr> Extra := xs @ [r1] \<rparr>) secret)) =
        snd (snd (Verify e rr (msg\<lparr> Extra := xs @ [r2] \<rparr>) secret)))
   \<and> (packBase64 e (bytes_of_string secret) = Some k \<and> Rrtype (Header r1) = TypeTSIG \<and>
      fst (tsigToBuf e rr (msg\<lparr> MsgHdr_Id := OrigId rr, Extra := xs \<rparr>)) = Some buf \<longrightarrow>
      fst (Verify e rr (msg\<lparr> Extra := xs @ [r1] \<rparr>) secret) =
        (string_of_bytes (hmac_md5 k buf) = MAC rr))"
proof (intro conjI impI)
  assume ty: "Rrtype (Header r1) = Rrtype (Header r2)"
  have "fst (Verify e rr (msg\<lparr> Extra := xs @ [r1] \<rparr>) secret) =
        fst (Verify e rr (msg\<lparr> Extra := xs @ [r2] \<rparr>) secret)
      \<and> snd (snd (Verify e rr (msg\<lparr> Extra := xs @ [r1] \<rparr>) secret)) =
        snd (snd (Verify e rr (msg\<lparr> Extra := xs @ [r2] \<rparr>) secret))"
  proof (cases "packBase64 e (bytes_of_string secret)")
    case None
    then show ?thesis
      by (simp add: Verify_bad_secret)
  next
    case (Some k')
    show ?thesis
    proof (cases "Rrtype (Header r1) = TypeTSIG")
      case True
      with ty Some show ?thesis
        by (simp add: Verify_checked [of e secret k'] split: option.splits)
    next
      case False
      with ty show ?thesis
        by (simp add: Verify_wrong_type)
    qed
  qed
  then show "fst (Verify e rr (msg\<lparr> Extra := xs @ [r1] \<rparr>) secret) =
        fst (Verify e rr (msg\<lparr> Extra := xs @ [r2] \<rparr>) secret)"
    and "snd (snd (Verify e rr (msg\<lparr> Extra := xs @ [r1] \<rparr>) secret)) =
        snd (snd (Verify e rr (msg\<lparr> Extra := xs @ [r2] \<rparr>) secret))"
    by simp_all
next
  assume "packBase64 e (bytes_of_string secret) = Some k \<and> Rrtype (Header r1) = TypeTSIG \<and>
      fst (tsigToBuf e rr (msg\<lparr> MsgHdr_Id := OrigId rr, Extra := xs \<rparr>)) = Some buf"
  then show "fst (Verify e rr (msg\<lparr> Extra := xs @ [r1] \<rparr>) secret) =
        (string_of_bytes (hmac_md5 k buf) = MAC rr)"
    by (simp add: Verify_checked [of e secret k] split: option.splits)
qed

theorem Verify_reads_type_of_last_record_only_witness:
  "Rrtype (Header (TSIG rr0)) = Rrtype (Header (TSIG (rr0\<lparr> MAC := ''x'', RR_TSIG.TimeSigned := 5 \<rparr>)))
   \<and> TSIG rr0 \<noteq> TSIG (rr0\<lparr> MAC := ''x'', RR_TSIG.TimeSigned := 5 \<rparr>)
   \<and> fst (Verify wire_env (rr0\<lparr> OrigId := 1000 \<rparr>) (msg0\<lparr> Extra := [] @ [TSIG rr0] \<rparr>) secret0) =
       fst (Verify wire_env (rr0\<lparr> OrigId := 1000 \<rparr>)
             (msg0\<lparr> Extra := [] @ [TSIG (rr0\<lparr> MAC := ''x'', RR_TSIG.TimeSigned := 5 \<rparr>)] \<rparr>) secret0)
   \<and> packBase64 wire_env (bytes_of_string secret0) = Some [0, 0, 0]
   \<and> Rrtype (Header (TSIG rr0)) = TypeTSIG
   \<and> fst (tsigToBuf wire_env (rr0\<lparr> OrigId := 1000 \<rparr>)
            (msg0\<lparr> MsgHdr_Id := OrigId (rr0\<lparr> OrigId := 1000 \<rparr>), Extra := [] \<rparr>)) \<noteq> None
   \<and> fst (Verify wire_env (rr0\<lparr> OrigId := 1000 \<rparr>) (msg0\<lparr> Extra := [] @ [TSIG rr0] \<rparr>) secret0) =
       (string_of_bytes (hmac_md5 [0, 0, 0]
          [3, 232, 0, 0, 0, 0, 0, 0, 0, 0, 0, 0, 1, 107, 0, 0, 255, 0, 0, 0, 0, 8,
           72, 77, 65, 67, 45, 77, 68, 53, 7, 83, 73, 71, 45, 65, 76, 71, 3, 82,
           69, 71, 3, 73, 78, 84, 0, 0, 0, 77, 124, 109, 0, 1, 44, 0, 0, 0, 0])
        = MAC (rr0\<lparr> OrigId := 1000 \<rparr>))"
proof -
  have d: "TSIG rr0 \<noteq> TSIG (rr0\<lparr> MAC := ''x'', RR_TSIG.TimeSigned := 5 \<rparr>)"
    by (simp add: rr0_def)
  have b: "fst (tsigToBuf wire_env (rr0\<lparr> OrigId := 1000 \<rparr>)
            (msg0\<lparr> MsgHdr_Id := OrigId (rr0\<lparr> OrigId := 1000 \<rparr>), Extra := [] \<rparr>)) =
     Some [3, 232, 0, 0, 0, 0, 0, 0, 0, 0, 0, 0, 1, 107, 0, 0, 255, 0, 0, 0, 0, 8,
           72, 77, 65, 67, 45, 77, 68, 53, 7, 83, 73, 71, 45, 65, 76, 71, 3, 82,
           69, 71, 3, 73, 78, 84, 0, 0, 0, 77, 124, 109, 0, 1, 44, 0, 0, 0, 0]"
    using signing_buffer_example by simp
  show ?thesis
    using d b secret_decoded_example rrtype_rr0
      Verify_reads_type_of_last_record_only [where ?r1.0 = "TSIG rr0"
        and ?r2.0 = "TSIG (rr0\<lparr> MAC := ''x'', RR_TSIG.TimeSigned := 5 \<rparr>)" and e = wire_env
        and rr = "rr0\<lparr> OrigId := 1000 \<rparr>" and msg = msg0 and xs = "[]" and secret = secret0
        and k = "[0, 0, 0]"
        and buf = "[3, 232, 0, 0, 0, 0, 0, 0, 0, 0, 0, 0, 1, 107, 0, 0, 255, 0, 0, 0, 0, 8,
           72, 77, 65, 67, 45, 77, 68, 53, 7, 83, 73, 71, 45, 65, 76, 71, 3, 82,
           69, 71, 3, 73, 78, 84, 0, 0, 0, 77, 124, 109, 0, 1, 44, 0, 0, 0, 0]"]
    by auto
qed

section \<open>The digest engine does not look at the algorithm name\<close>




section \<open>Where the code departs from its specification\<close>

lemma msg0_id [simp]: "msg0\<lparr> MsgHdr_Id := 1000 \<rparr> = msg0"
  by (simp add: msg0_def)

lemma msg0_extra [simp]: "msg0\<lparr> Extra := [] \<rparr> = msg0"
  by (simp add: msg0_def)

lemma digests_differ_example:
  "hmac_md5 [0, 0, 0]
     [3, 232, 0, 0, 0, 0, 0, 0, 0, 0, 0, 0, 1, 107, 0, 0, 255, 0, 0, 0, 0, 8,
      72, 77, 65, 67, 45, 77, 68, 53, 7, 83, 73, 71, 45, 65, 76, 71, 3, 82,
      69, 71, 3, 73, 78, 84, 0, 0, 0, 77, 124, 109, 0, 1, 44, 0, 0, 0, 0]
   \<noteq> hmac_md5 [81, 85, 70, 66, 81, 81, 61, 61]
     [3, 232, 0, 0, 0, 0, 0, 0, 0, 0, 0, 0, 1, 107, 0, 0, 255, 0, 0, 0, 0, 8,
      72, 77, 65, 67, 45, 77, 68, 53, 7, 83, 73, 71, 45, 65, 76, 71, 3, 82,
      69, 71, 3, 73, 78, 84, 0, 0, 0, 77, 124, 109, 0, 1, 44, 0, 0, 0, 0]"
  by (simp add: digest_encoded_key_example digest_decoded_key_example)

text \<open>
  C1. The secret \<^verbatim>\<open>AAAA\<close> is valid base64 (three zero bytes). \<^verbatim>\<open>Generate\<close> signs the
  message with header id 1000 and succeeds; the completed record is appended as the last
  additional record; \<^verbatim>\<open>Verify\<close> with the same record and secret rejects. The MAC was
  keyed with the eight characters \<^verbatim>\<open>QUFBQQ==\<close>, the secret encoded once more, and is
  compared with the digest keyed with the three decoded bytes.
\<close>

theorem Verify_rejects_what_Generate_signed_example:
  "packBase64 wire_env (bytes_of_string secret0) = Some [0, 0, 0]
   \<and> fst (tsigToBuf wire_env rr0 msg0) \<noteq> None
   \<and> Rrtype (Hdr rr0) = TypeTSIG
   \<and> fst (Generate wire_env rr0 msg0 secret0) = True
   \<and> fst (Verify wire_env (fst (snd (Generate wire_env rr0 msg0 secret0)))
           (msg0\<lparr> Extra := Extra msg0 @ [TSIG (fst (snd (Generate wire_env rr0 msg0 secret0)))] \<rparr>)
           secret0) = False"
  using Verify_after_Generate [OF signing_buffer_example secret_decoded_example rrtype_rr0,
      where i = 1000]
    signing_buffer_example secret_decoded_example rrtype_rr0 digests_differ_example
  by (simp add: Generate_Some [OF signing_buffer_example] secret_encoded_example)

text \<open>
  C5. The same signed message, forwarded with its header id rewritten from 1000 to 2000
  and the record, with original id 1000, untouched: \<^verbatim>\<open>Verify\<close> rejects. It does restore
  the id and strip the record (\<open>Verify_ignores_header_id\<close>, \<open>Verify_after_Generate\<close>); the
  digests differ by their keys, as for C1.
\<close>

theorem Verify_rejects_after_id_rewrite_example:
  "MsgHdr_Id msg0 = 1000
   \<and> fst (Generate wire_env rr0 msg0 secret0) = True
   \<and> OrigId (fst (snd (Generate wire_env rr0 msg0 secret0))) = 1000
   \<and> fst (Verify wire_env (fst (snd (Generate wire_env rr0 msg0 secret0)))
           (msg0\<lparr> MsgHdr_Id := 2000,
                  Extra := Extra msg0 @ [TSIG (fst (snd (Generate wire_env rr0 msg0 secret0)))] \<rparr>)
           secret0) = False"
proof -
  have i: "MsgHdr_Id msg0 = 1000"
    by (simp add: msg0_def)
  show ?thesis
    using Verify_after_Generate [OF signing_buffer_example secret_decoded_example rrtype_rr0,
        where i = 2000]
      i digests_differ_example
    by (simp add: Generate_Some [OF signing_buffer_example] secret_encoded_example)
qed

text \<open>
  C2. A message with header id 2000 and one additional record, of type TSIG, verified
  against a record with original id 1000: after the call the caller's message has header
  id 1000 and no additional record, and its wire form is another.
\<close>

theorem Verify_changes_message_example:
  "MsgHdr_Id (msg0\<lparr> MsgHdr_Id := 2000, Extra := [TSIG rr0] \<rparr>) = 2000
   \<and> Extra (msg0\<lparr> MsgHdr_Id := 2000, Extra := [TSIG rr0] \<rparr>) = [TSIG rr0]
   \<and> MsgHdr_Id (fst (snd (Verify wire_env (rr0\<lparr> OrigId := 1000 \<rparr>)
         (msg0\<lparr> MsgHdr_Id := 2000, Extra := [TSIG rr0] \<rparr>) secret0))) = 1000
   \<and> Extra (fst (snd (Verify wire_env (rr0\<lparr> OrigId := 1000 \<rparr>)
         (msg0\<lparr> MsgHdr_Id := 2000, Extra := [TSIG rr0] \<rparr>) secret0))) = []
   \<and> Pack wire_env (msg0\<lparr> MsgHdr_Id := 2000, Extra := [TSIG rr0] \<rparr>) =
       Some [7, 208, 0, 0, 0, 0, 0, 0, 0, 0, 0, 1, 1, 107, 0, 0, 250, 0, 255, 0, 0, 0,
             0, 0, 42, 8, 72, 77, 65, 67, 45, 77, 68, 53, 7, 83, 73, 71, 45, 65, 76,
             71, 3, 82, 69, 71, 3, 73, 78, 84, 0, 0, 0, 77, 124, 109, 0, 1, 44, 0, 0,
             0, 0, 0, 0, 0, 0]
   \<and> Pack wire_env (fst (snd (Verify wire_env (rr0\<lparr> OrigId := 1000 \<rparr>)
         (msg0\<lparr> MsgHdr_Id := 2000, Extra := [TSIG rr0] \<rparr>) secret0))) =
       Some [3, 232, 0, 0, 0, 0, 0, 0, 0, 0, 0, 0]"
proof -
  let ?m = "msg0\<lparr> MsgHdr_Id := 2000, Extra := [TSIG rr0] \<rparr>"
  have after: "fst (snd (Verify wire_env (rr0\<lparr> OrigId := 1000 \<rparr>) ?m secret0)) = msg0"
    using Verify_checked [OF secret_decoded_example, where msg = ?m and rr = "rr0\<lparr> OrigId := 1000 \<rparr>"]
      rrtype_rr0
    by (simp split: option.splits)
  have p: "Pack wire_env ?m =
       Some [7, 208, 0, 0, 0, 0, 0, 0, 0, 0, 0, 1, 1, 107, 0, 0, 250, 0, 255, 0, 0, 0,
             0, 0, 42, 8, 72, 77, 65, 67, 45, 77, 68, 53, 7, 83, 73, 71, 45, 65, 76,
             71, 3, 82, 69, 71, 3, 73, 78, 84, 0, 0, 0, 77, 124, 109, 0, 1, 44, 0, 0,
             0, 0, 0, 0, 0, 0]"
    by code_simp
  have q: "Pack wire_env msg0 = Some [3, 232, 0, 0, 0, 0, 0, 0, 0, 0, 0, 0]"
    by code_simp
  have f: "MsgHdr_Id msg0 = 1000" "Extra msg0 = []"
    by (simp_all add: msg0_def)
  show ?thesis
    unfolding after using p q f by simp
qed

text \<open>
  C7. The secret \<^verbatim>\<open>!\<close> is not base64: \<^verbatim>\<open>packBase64\<close> reports the error and
  \<^verbatim>\<open>Verify\<close> rejects. \<^verbatim>\<open>Generate\<close> does not decode the secret; it succeeds, and stores
  a digest keyed with \<^verbatim>\<open>IQ==\<close>.
\<close>

theorem Generate_signs_with_malformed_secret_example:
  "packBase64 wire_env (bytes_of_string ''!'') = None
   \<and> fst (Verify wire_env rr0 (msg0\<lparr> Extra := [TSIG rr0] \<rparr>) ''!'') = False
   \<and> fst (Generate wire_env rr0 msg0 ''!'') = True
   \<and> length (MAC (fst (snd (Generate wire_env rr0 msg0 ''!'')))) = 16
   \<and> snd (snd (snd (Generate wire_env rr0 msg0 ''!''))) =
       [Printed [3, 232, 0, 0, 0, 0, 0, 0, 0, 0, 0, 0, 1, 107, 0, 0, 255, 0, 0, 0, 0, 8,
                 72, 77, 65, 67, 45, 77, 68, 53, 7, 83, 73, 71, 45, 65, 76, 71, 3, 82,
                 69, 71, 3, 73, 78, 84, 0, 0, 0, 77, 124, 109, 0, 1, 44, 0, 0, 0, 0],
        HmacSum [73, 81, 61, 61]
                [3, 232, 0, 0, 0, 0, 0, 0, 0, 0, 0, 0, 1, 107, 0, 0, 255, 0, 0, 0, 0, 8,
                 72, 77, 65, 67, 45, 77, 68, 53, 7, 83, 73, 71, 45, 65, 76, 71, 3, 82,
                 69, 71, 3, 73, 78, 84, 0, 0, 0, 77, 124, 109, 0, 1, 44, 0, 0, 0, 0]]"
proof -
  have k: "bytes_of_string (unpackBase64 wire_env (bytes_of_string ''!'')) = [73, 81, 61, 61]"
    by code_simp
  show ?thesis
    using secret_malformed_example
    by (simp add: Generate_Some [OF signing_buffer_example] Verify_bad_secret k)
qed

end
